theory Spec2Isabelle
  imports Complex_Main
begin

section \<open>JavaScript numbers\<close>

text \<open>
  A JavaScript \<open>number\<close> is a finite value, one of the two infinities, or NaN.
  Finite values are modelled as exact reals: binary rounding, overflow to an
  infinity and the sign of zero are left out. Every operation below follows
  the ECMAScript definition of the operator of the same name on that reading.
\<close>

datatype number = Num real | PosInf | NegInf | NaN

text \<open>\<open>a + b\<close>\<close>

fun jadd :: "number \<Rightarrow> number \<Rightarrow> number" where
  "jadd NaN b = NaN"
| "jadd a NaN = NaN"
| "jadd (Num a) (Num b) = Num (a + b)"
| "jadd PosInf NegInf = NaN"
| "jadd NegInf PosInf = NaN"
| "jadd PosInf b = PosInf"
| "jadd NegInf b = NegInf"
| "jadd (Num a) b = b"

text \<open>Unary minus and \<open>a - b\<close>\<close>

fun jneg :: "number \<Rightarrow> number" where
  "jneg (Num a) = Num (- a)"
| "jneg PosInf = NegInf"
| "jneg NegInf = PosInf"
| "jneg NaN = NaN"

definition jsub :: "number \<Rightarrow> number \<Rightarrow> number" where
  "jsub a b = jadd a (jneg b)"

text \<open>\<open>a * b\<close>\<close>

fun jsign :: "number \<Rightarrow> int" where
  "jsign (Num a) = (if a < 0 then - 1 else if a = 0 then 0 else 1)"
| "jsign PosInf = 1"
| "jsign NegInf = - 1"
| "jsign NaN = 0"

fun jmul :: "number \<Rightarrow> number \<Rightarrow> number" where
  "jmul NaN b = NaN"
| "jmul a NaN = NaN"
| "jmul (Num a) (Num b) = Num (a * b)"
| "jmul a b =
     (if jsign a * jsign b = 0 then NaN
      else if jsign a * jsign b > 0 then PosInf else NegInf)"

text \<open>\<open>a / b\<close>: a finite value divided by zero is an infinity, \<open>0 / 0\<close> is NaN.\<close>

fun jdiv :: "number \<Rightarrow> number \<Rightarrow> number" where
  "jdiv NaN b = NaN"
| "jdiv a NaN = NaN"
| "jdiv (Num a) (Num b) =
     (if b = 0 then (if a = 0 then NaN else if a > 0 then PosInf else NegInf)
      else Num (a / b))"
| "jdiv (Num a) b = Num 0"
| "jdiv a (Num b) =
     (if jsign a * (if b < 0 then - 1 else 1) > 0 then PosInf else NegInf)"
| "jdiv a b = NaN"

text \<open>\<open>a < b\<close> and \<open>a > b\<close>: every comparison with NaN is false.\<close>

fun jlt :: "number \<Rightarrow> number \<Rightarrow> bool" where
  "jlt NaN b = False"
| "jlt a NaN = False"
| "jlt (Num a) (Num b) = (a < b)"
| "jlt PosInf b = False"
| "jlt a NegInf = False"
| "jlt NegInf b = True"
| "jlt a PosInf = True"

definition jgt :: "number \<Rightarrow> number \<Rightarrow> bool" where
  "jgt a b = jlt b a"

definition jle :: "number \<Rightarrow> number \<Rightarrow> bool" where
  "jle a b = (a \<noteq> NaN \<and> b \<noteq> NaN \<and> \<not> jlt b a)"

text \<open>\<open>Math.max(a, b)\<close>: NaN if either argument is NaN.\<close>

definition Math_max :: "number \<Rightarrow> number \<Rightarrow> number" where
  "Math_max a b = (if a = NaN \<or> b = NaN then NaN else if jlt a b then b else a)"

text \<open>\<open>Math.round(x)\<close>: the integer nearest to \<open>x\<close>, ties towards \<open>+\<infinity>\<close>.\<close>

fun Math_round :: "number \<Rightarrow> number" where
  "Math_round (Num x) = Num (of_int \<lfloor>x + 1 / 2\<rfloor>)"
| "Math_round a = a"

text \<open>The number of a list length or of an index.\<close>

definition of_index :: "nat \<Rightarrow> number" where
  "of_index n = Num (of_nat n)"

section \<open>Arrays\<close>

text \<open>
  \<open>Array.prototype.slice(start, end)\<close>: each argument goes through
  \<open>ToIntegerOrInfinity\<close> (NaN is 0, a finite value is cut towards zero),
  a negative index counts from the end, and both are clamped to the array.
  An absent \<open>end\<close> is the length.
\<close>

definition js_trunc :: "real \<Rightarrow> int" where
  "js_trunc r = (if r < 0 then \<lceil>r\<rceil> else \<lfloor>r\<rfloor>)"

fun relativeIndex :: "nat \<Rightarrow> number \<Rightarrow> nat" where
  "relativeIndex len NaN = 0"
| "relativeIndex len NegInf = 0"
| "relativeIndex len PosInf = len"
| "relativeIndex len (Num r) =
     (if js_trunc r < 0 then nat (max (int len + js_trunc r) 0)
      else nat (min (js_trunc r) (int len)))"

definition slice :: "'a list \<Rightarrow> number \<Rightarrow> number option \<Rightarrow> 'a list" where
  "slice xs start end =
     (let len = length xs;
          k = relativeIndex len start;
          final = (case end of None \<Rightarrow> len | Some e \<Rightarrow> relativeIndex len e)
      in take (final - k) (drop k xs))"

section \<open>Chart data and the trailing moving average\<close>

record ChartData =
  datetime :: string
  temperature :: number
  time :: string
  date :: string

text \<open>
  \<open>calculateMovingAverage(data, windowSize)\<close> of the trailing variant: for every
  index the window is \<open>data.slice(Math.max(0, index - windowSize + 1), index + 1)\<close>,
  its temperatures are summed from 0 by \<open>reduce\<close>, divided by the window's length
  and rounded to one decimal; the point is copied with the new temperature.
  The start of the window is computed on exact reals here; in doubles it is
  the same for a whole-number window size and can differ for a fraction
  (\<open>0 - w + 1\<close> is 1 for a positive \<open>w\<close> of at most \<open>2^-54\<close>).
\<close>

definition round1 :: "number \<Rightarrow> number" where
  "round1 average = jdiv (Math_round (jmul average (Num 10))) (Num 10)"

definition windowAverage :: "ChartData list \<Rightarrow> number" where
  "windowAverage windowData =
     (let sum = foldl (\<lambda>acc item. jadd acc (temperature item)) (Num 0) windowData
      in jdiv sum (of_index (length windowData)))"

definition trailingWindow :: "ChartData list \<Rightarrow> number \<Rightarrow> nat \<Rightarrow> ChartData list" where
  "trailingWindow data windowSize index =
     (let start = Math_max (Num 0) (jadd (jsub (of_index index) windowSize) (Num 1));
          end = jadd (of_index index) (Num 1)
      in slice data start (Some end))"

definition calculateMovingAverage :: "ChartData list \<Rightarrow> number \<Rightarrow> ChartData list" where
  "calculateMovingAverage data windowSize =
     map (\<lambda>(index, point).
            point\<lparr>temperature := round1 (windowAverage (trailingWindow data windowSize index))\<rparr>)
         (enumerate 0 data)"

section \<open>The centered moving average of \<open>src/App.tsx\<close>\<close>

text \<open>
  The other variant of \<open>calculateMovingAverage\<close> takes the window
  \<open>data.slice(Math.max(0, index - Math.floor(windowSize / 2)),
  Math.min(data.length, index + Math.ceil(windowSize / 2)))\<close>.
\<close>

fun Math_floor :: "number \<Rightarrow> number" where
  "Math_floor (Num x) = Num (of_int \<lfloor>x\<rfloor>)"
| "Math_floor a = a"

fun Math_ceil :: "number \<Rightarrow> number" where
  "Math_ceil (Num x) = Num (of_int \<lceil>x\<rceil>)"
| "Math_ceil a = a"

definition Math_min :: "number \<Rightarrow> number \<Rightarrow> number" where
  "Math_min a b = (if a = NaN \<or> b = NaN then NaN else if jlt b a then b else a)"

definition centeredWindow :: "ChartData list \<Rightarrow> number \<Rightarrow> nat \<Rightarrow> ChartData list" where
  "centeredWindow data windowSize index =
     (let start = Math_max (Num 0)
                    (jsub (of_index index) (Math_floor (jdiv windowSize (Num 2))));
          end = Math_min (of_index (length data))
                  (jadd (of_index index) (Math_ceil (jdiv windowSize (Num 2))))
      in slice data start (Some end))"

definition calculateMovingAverage_centered :: "ChartData list \<Rightarrow> number \<Rightarrow> ChartData list" where
  "calculateMovingAverage_centered data windowSize =
     map (\<lambda>(index, point).
            point\<lparr>temperature := round1 (windowAverage (centeredWindow data windowSize index))\<rparr>)
         (enumerate 0 data)"

section \<open>The normalizer\<close>

text \<open>
  \<open>parseFloat(text)\<close>: leading white space is skipped, then the longest prefix
  that is a decimal literal (an optional sign, then \<open>Infinity\<close> or digits with
  an optional fraction and an optional exponent) gives the value; where no
  prefix is one, the result is NaN. A \<open>char\<close> stands for a code unit below 256.
\<close>

definition isDecimalDigit :: "char \<Rightarrow> bool" where
  "isDecimalDigit c = (48 \<le> (of_char c :: nat) \<and> (of_char c :: nat) \<le> 57)"

definition isStrWhiteSpaceChar :: "char \<Rightarrow> bool" where
  "isStrWhiteSpaceChar c = ((of_char c :: nat) \<in> {9, 10, 11, 12, 13, 32, 160})"

definition decimalValue :: "string \<Rightarrow> nat" where
  "decimalValue ds = foldl (\<lambda>acc c. 10 * acc + ((of_char c :: nat) - 48)) 0 ds"

definition signedInteger :: "string \<Rightarrow> int" where
  "signedInteger s =
     (if s \<noteq> [] \<and> hd s = CHR ''+'' then int (decimalValue (takeWhile isDecimalDigit (tl s)))
      else if s \<noteq> [] \<and> hd s = CHR ''-'' then - int (decimalValue (takeWhile isDecimalDigit (tl s)))
      else int (decimalValue (takeWhile isDecimalDigit s)))"

text \<open>An exponent indicator that no digit follows is not part of the literal.\<close>

definition exponentPart :: "string \<Rightarrow> int" where
  "exponentPart s =
     (if s \<noteq> [] \<and> (hd s = CHR ''e'' \<or> hd s = CHR ''E'') then signedInteger (tl s) else 0)"

definition scaleBy :: "nat \<Rightarrow> int \<Rightarrow> real" where
  "scaleBy m e = (if 0 \<le> e then real m * 10 ^ nat e else real m / 10 ^ nat (- e))"

definition strUnsignedDecimalLiteral :: "string \<Rightarrow> number" where
  "strUnsignedDecimalLiteral s =
     (if take 8 s = ''Infinity'' then PosInf
      else
        let intDigits = takeWhile isDecimalDigit s;
            rest = dropWhile isDecimalDigit s
        in if rest \<noteq> [] \<and> hd rest = CHR ''.'' then
             (let fracDigits = takeWhile isDecimalDigit (tl rest);
                  rest' = dropWhile isDecimalDigit (tl rest)
              in if intDigits = [] \<and> fracDigits = [] then NaN
                 else Num (scaleBy (decimalValue (intDigits @ fracDigits))
                             (exponentPart rest' - int (length fracDigits))))
           else if intDigits = [] then NaN
           else Num (scaleBy (decimalValue intDigits) (exponentPart rest)))"

definition parseFloat :: "string \<Rightarrow> number" where
  "parseFloat text =
     (let trimmed = dropWhile isStrWhiteSpaceChar text
      in if trimmed \<noteq> [] \<and> hd trimmed = CHR ''+'' then strUnsignedDecimalLiteral (tl trimmed)
         else if trimmed \<noteq> [] \<and> hd trimmed = CHR ''-'' then jneg (strUnsignedDecimalLiteral (tl trimmed))
         else strUnsignedDecimalLiteral trimmed)"

record TemperatureDataPoint =
  point_datetime :: string
  temperatur :: string

text \<open>
  The two display labels are made by the host's \<open>Date\<close> from the datetime text
  (\<open>toLocaleTimeString\<close> and \<open>toLocaleDateString\<close> of \<open>new Date(text)\<close>); the
  host is a parameter.
\<close>

record Host =
  toLocaleTimeString :: "string \<Rightarrow> string"
  toLocaleDateString :: "string \<Rightarrow> string"

definition convertApiDataToChartData :: "Host \<Rightarrow> TemperatureDataPoint list \<Rightarrow> ChartData list" where
  "convertApiDataToChartData host apiData =
     map (\<lambda>point.
            \<lparr>datetime = point_datetime point,
             temperature = parseFloat (temperatur point),
             time = toLocaleTimeString host (point_datetime point),
             date = toLocaleDateString host (point_datetime point)\<rparr>)
         apiData"

section \<open>The season classifier\<close>

record SeasonInfo =
  season :: string
  message :: string

definition hoursIn5Days :: nat where
  "hoursIn5Days = 5 * 24"

text \<open>
  The two counting loops of \<open>detectSeason\<close> differ in the threshold only:
  \<open>for (let i = length - 1; i >= 0; i--)\<close>, counting while the temperature is
  below the threshold and leaving the loop at the first one that is not.
\<close>

function countBelow :: "number \<Rightarrow> ChartData list \<Rightarrow> int \<Rightarrow> nat \<Rightarrow> nat" where
  "countBelow threshold movingAvgData i consecutiveHours =
     (if i \<ge> 0 then
        (if jlt (temperature (movingAvgData ! nat i)) threshold
         then countBelow threshold movingAvgData (i - 1) (consecutiveHours + 1)
         else consecutiveHours)
      else consecutiveHours)"
  by pat_completeness auto
termination
  by (relation "measure (\<lambda>(threshold, movingAvgData, i, consecutiveHours). nat (i + 1))") auto

definition detectSeason :: "ChartData list \<Rightarrow> SeasonInfo" where
  "detectSeason movingAvgData =
     (let last5Days = slice movingAvgData (jneg (of_index hoursIn5Days)) None;
          hasBeenAbove10InLast5Days =
            list_ex (\<lambda>point. jgt (temperature point) (Num 10)) last5Days;
          consecutiveHoursBelow0 =
            countBelow (Num 0) movingAvgData (int (length movingAvgData) - 1) 0;
          consecutiveHoursBelow10 =
            countBelow (Num 10) movingAvgData (int (length movingAvgData) - 1) 0
      in if consecutiveHoursBelow0 \<ge> hoursIn5Days then
           \<lparr>season = ''winter'', message = ''Seems like it'' @ CHR 0x27 # ''s winter!''\<rparr>
         else if consecutiveHoursBelow10 \<ge> hoursIn5Days then
           \<lparr>season = ''autumn'', message = ''Seems like it'' @ CHR 0x27 # ''s autumn!''\<rparr>
         else if hasBeenAbove10InLast5Days then
           \<lparr>season = ''summer'', message = ''Seems like it'' @ CHR 0x27 # ''s summer!''\<rparr>
         else
           \<lparr>season = ''unknown'', message = ''''\<rparr>)"

section \<open>The browser's cache\<close>

text \<open>
  Times are milliseconds since the epoch, as \<open>Date.now()\<close> reads them; the
  reading is a parameter of every function that takes one.
\<close>

definition CACHE_DURATION_MS :: int where
  "CACHE_DURATION_MS = 55 * 60 * 1000"

definition isCacheValid :: "int \<Rightarrow> int \<Rightarrow> bool" where
  "isCacheValid now timestamp = ((now - timestamp) < CACHE_DURATION_MS)"

record Station =
  title :: string
  station_id :: string
  temp :: string
  station_data :: "TemperatureDataPoint list"

text \<open>
  What \<open>localStorage\<close> holds under \<open>CACHE_KEY\<close>: nothing, a text that
  \<open>JSON.parse\<close> or the reads after it raise on, or a stored object.
\<close>

record CacheData =
  cached_data :: "TemperatureDataPoint list"
  cached_stationInfo :: Station
  cached_timestamp :: int

datatype StoredItem = Unreadable | Stored CacheData

definition saveToCache ::
  "bool \<Rightarrow> int \<Rightarrow> TemperatureDataPoint list \<Rightarrow> Station \<Rightarrow> StoredItem option \<Rightarrow> StoredItem option"
where
  "saveToCache setItemRaises now d info storage =
     (let cacheData = \<lparr>cached_data = d, cached_stationInfo = info, cached_timestamp = now\<rparr>
      in if setItemRaises then storage else Some (Stored cacheData))"

definition loadFromCache :: "int \<Rightarrow> StoredItem option \<Rightarrow> CacheData option \<times> StoredItem option" where
  "loadFromCache now storage =
     (case storage of
        None \<Rightarrow> (None, storage)
      | Some Unreadable \<Rightarrow> (None, None)
      | Some (Stored parsed) \<Rightarrow>
          if cached_timestamp parsed = 0 \<or> \<not> isCacheValid now (cached_timestamp parsed)
          then (None, None)
          else (Some parsed, storage))"

section \<open>The caching function\<close>

record ApiResponse =
  full_exec_time :: number
  api_title :: string
  client :: string
  stations :: "Station list option"

record ServerCache =
  cache_data :: "ApiResponse option"
  cache_timestamp :: "int option"
  cache_stationInfo :: "Station option"

text \<open>
  \<open>!cache.timestamp\<close> holds of \<open>null\<close> and of 0, \<open>!cache.data\<close> of \<open>null\<close>.
\<close>

definition function_isCacheValid :: "int \<Rightarrow> ServerCache \<Rightarrow> bool" where
  "function_isCacheValid now cache =
     (if (cache_timestamp cache = None \<or> cache_timestamp cache = Some 0) \<or> cache_data cache = None
      then False
      else (now - the (cache_timestamp cache)) < CACHE_DURATION_MS)"

text \<open>
  The JSON body of a response: the keys \<open>success\<close>, \<open>cached\<close>, \<open>timestamp\<close>,
  \<open>stations\<close>, \<open>stationInfo\<close> and \<open>error\<close>, each present or not.
\<close>

record Body =
  success :: "bool option"
  cached :: "bool option"
  timestamp :: "int option"
  body_stations :: "Station list option"
  body_stationInfo :: "Station option"
  body_error :: "string option"

text \<open>
  A header's value is a text or the \<open>toISOString\<close> rendering of a date, which
  is kept as the date it renders.
\<close>

datatype HeaderValue = Text string | ISOString int

record Response =
  statusCode :: nat
  headers :: "(string \<times> HeaderValue) list"
  body :: "Body option"

text \<open>
  What the request to the upstream API comes to: the promise is rejected, or
  raises on the way, with a message, or is resolved with the parsed reply.
\<close>

datatype Upstream = Rejected string | Resolved ApiResponse

definition corsHeaders :: "(string \<times> HeaderValue) list" where
  "corsHeaders =
     [(''Access-Control-Allow-Origin'', Text ''*''),
      (''Access-Control-Allow-Headers'', Text ''Content-Type''),
      (''Access-Control-Allow-Methods'', Text ''GET, OPTIONS''),
      (''Content-Type'', Text ''application/json'')]"

definition noKeys :: Body where
  "noKeys = \<lparr>success = None, cached = None, timestamp = None, body_stations = None,
             body_stationInfo = None, body_error = None\<rparr>"

text \<open>The \<open>catch\<close> block of the handler.\<close>

definition failure :: "string \<Rightarrow> int \<Rightarrow> Response" where
  "failure msg now =
     \<lparr>statusCode = 500, headers = corsHeaders,
      body = Some (noKeys\<lparr>success := Some False, body_error := Some msg, timestamp := Some now\<rparr>)\<rparr>"

text \<open>
  \<open>handler\<close>: \<open>now\<close> is the clock when the cache is tested, \<open>later\<close> the clock
  once the upstream request is over. The cache is the module's variable: it is
  taken and given back.
\<close>

definition handler ::
  "string \<Rightarrow> int \<Rightarrow> int \<Rightarrow> Upstream \<Rightarrow> ServerCache \<Rightarrow> Response \<times> ServerCache"
where
  "handler httpMethod now later upstream cache =
     (if httpMethod = ''OPTIONS'' then
        (\<lparr>statusCode = 200, headers = corsHeaders, body = None\<rparr>, cache)
      else if httpMethod \<noteq> ''GET'' then
        (\<lparr>statusCode = 405, headers = corsHeaders,
          body = Some (noKeys\<lparr>body_error := Some ''Method not allowed''\<rparr>)\<rparr>, cache)
      else if function_isCacheValid now cache then
        (\<lparr>statusCode = 200,
          headers = corsHeaders @
            [(''Cache-Control'', Text ''public, max-age=3300''),
             (''X-Cache-Status'', Text ''HIT''),
             (''X-Cache-Timestamp'', ISOString (the (cache_timestamp cache)))],
          body = Some (noKeys\<lparr>success := Some True, cached := Some True,
                   timestamp := cache_timestamp cache,
                   body_stations :=
                     Some (case stations (the (cache_data cache)) of None \<Rightarrow> [] | Some sts \<Rightarrow> sts),
                   body_stationInfo := cache_stationInfo cache\<rparr>)\<rparr>, cache)
      else
        (case upstream of
           Rejected msg \<Rightarrow> (failure msg later, cache)
         | Resolved apiData \<Rightarrow>
             (case stations apiData of
                None \<Rightarrow> (failure ''No stations data received from API'' later, cache)
              | Some [] \<Rightarrow> (failure ''No stations data received from API'' later, cache)
              | Some (first # others) \<Rightarrow>
                  (\<lparr>statusCode = 200,
                    headers = corsHeaders @
                      [(''Cache-Control'', Text ''public, max-age=3300''),
                       (''X-Cache-Status'', Text ''MISS''),
                       (''X-Cache-Timestamp'', ISOString later)],
                    body = Some (noKeys\<lparr>success := Some True, cached := Some False,
                             timestamp := Some later,
                             body_stations := Some (first # others),
                             body_stationInfo := Some first\<rparr>)\<rparr>,
                   \<lparr>cache_data = Some apiData, cache_timestamp = Some later,
                    cache_stationInfo = Some first\<rparr>))))"

section \<open>The pipeline of the application\<close>

text \<open>
  The state of the component, as its \<open>useState\<close> hooks hold it. A date is its
  time in milliseconds; \<open>None\<close> is \<open>null\<close> or a date made from an absent key.
\<close>

record AppState =
  data :: "ChartData list"
  movingAverageData :: "ChartData list"
  loading :: bool
  error :: "string option"
  stationInfo :: "Station option"
  seasonInfo :: SeasonInfo
  lastUpdated :: "int option"
  usingCachedData :: bool

text \<open>
  What one call of \<open>fetchTemperatureData\<close> meets: its argument, the clock, the
  host name, whether \<open>localStorage.setItem\<close> raises, and what each request and
  the import of the bundled sample come to (\<open>None\<close> where it raises: a network
  error, a timeout, a status outside 2xx, a reply that cannot be parsed).
\<close>

record Env =
  forceRefresh :: bool
  clock :: int
  isProduction :: bool
  setItemRaises :: bool
  functionReply :: "Body option"
  proxyReply :: "ApiResponse option"
  exampleData :: "ApiResponse option"

text \<open>
  The \<open>try\<close> block after the cache test; \<open>None\<close> is a raise, which every path
  does before its first state update.
\<close>

definition tryFetch ::
  "Host \<Rightarrow> Env \<Rightarrow> AppState \<times> StoredItem option \<Rightarrow> (AppState \<times> StoredItem option) option"
where
  "tryFetch host env st =
     (let (s, storage) = st
      in if isProduction env then
           (case functionReply env of
              None \<Rightarrow> None
            | Some functionResponse \<Rightarrow>
                if success functionResponse \<noteq> Some True then None
                else
                  (case body_stations functionResponse of
                     Some (station # others) \<Rightarrow>
                       (let storage' = saveToCache (setItemRaises env) (clock env)
                                         (station_data station) station storage;
                            chartData = convertApiDataToChartData host (station_data station);
                            movingAvg = calculateMovingAverage chartData (Num 24);
                            currentSeason = detectSeason movingAvg
                        in Some (s\<lparr>stationInfo := Some station, data := chartData,
                                   movingAverageData := movingAvg, seasonInfo := currentSeason,
                                   lastUpdated := timestamp functionResponse,
                                   usingCachedData := (cached functionResponse = Some True)\<rparr>,
                                 storage'))
                   | _ \<Rightarrow>
                       Some (s\<lparr>error := Some ''No temperature data available from the function''\<rparr>,
                             storage)))
         else
           (case proxyReply env of
              None \<Rightarrow> None
            | Some apiData \<Rightarrow>
                (case stations apiData of
                   Some (station # others) \<Rightarrow>
                     (let storage' = saveToCache (setItemRaises env) (clock env)
                                       (station_data station) station storage;
                          chartData = convertApiDataToChartData host (station_data station);
                          movingAvg = calculateMovingAverage chartData (Num 24);
                          currentSeason = detectSeason movingAvg
                      in Some (s\<lparr>stationInfo := Some station, data := chartData,
                                 movingAverageData := movingAvg, seasonInfo := currentSeason,
                                 lastUpdated := Some (clock env),
                                 usingCachedData := False\<rparr>,
                               storage'))
                 | _ \<Rightarrow>
                     Some (s\<lparr>error := Some ''No temperature data available from the API''\<rparr>,
                           storage))))"

text \<open>The \<open>catch\<close> block: the bundled sample.\<close>

definition fallback :: "Host \<Rightarrow> Env \<Rightarrow> AppState \<Rightarrow> AppState" where
  "fallback host env s =
     (case exampleData env of
        None \<Rightarrow>
          s\<lparr>error := Some ''Failed to fetch temperature data. Please try refreshing the page.''\<rparr>
      | Some example \<Rightarrow>
          (case stations example of
             Some (station # others) \<Rightarrow>
               (let chartData = convertApiDataToChartData host (station_data station);
                    movingAvg = calculateMovingAverage chartData (Num 24);
                    currentSeason = detectSeason movingAvg
                in s\<lparr>stationInfo := Some station, data := chartData,
                     movingAverageData := movingAvg, seasonInfo := currentSeason,
                     error := Some ''Using sample data (API temporarily unavailable)''\<rparr>)
           | _ \<Rightarrow> s))"

definition fetchTemperatureData ::
  "Host \<Rightarrow> Env \<Rightarrow> AppState \<times> StoredItem option \<Rightarrow> AppState \<times> StoredItem option"
where
  "fetchTemperatureData host env st =
     (let (s0, storage0) = st;
          s = s0\<lparr>loading := True, error := None, usingCachedData := False\<rparr>;
          (cachedData, storage) =
            (if \<not> forceRefresh env then loadFromCache (clock env) storage0
             else (None, storage0))
      in case cachedData of
           Some c \<Rightarrow>
             (let chartData = convertApiDataToChartData host (cached_data c)
              in (s\<lparr>stationInfo := Some (cached_stationInfo c), data := chartData,
                    movingAverageData := calculateMovingAverage chartData (Num 24),
                    seasonInfo := detectSeason chartData,
                    lastUpdated := Some (cached_timestamp c),
                    usingCachedData := True, loading := False\<rparr>,
                  storage))
         | None \<Rightarrow>
             (case tryFetch host env (s, storage) of
                Some (s', storage') \<Rightarrow> (s'\<lparr>loading := False\<rparr>, storage')
              | None \<Rightarrow> ((fallback host env s)\<lparr>loading := False\<rparr>, storage)))"

text \<open>The initial values of the \<open>useState\<close> hooks.\<close>

definition initialState :: AppState where
  "initialState =
     \<lparr>data = [], movingAverageData = [], loading = False, error = None, stationInfo = None,
      seasonInfo = \<lparr>season = ''unknown'', message = ''''\<rparr>, lastUpdated = None,
      usingCachedData = False\<rparr>"

section \<open>The classifier in the words of its specification\<close>

text \<open>
  The run of values below a threshold, walking from the last element backwards
  up to the first value that is not below it or to the start of the series.
\<close>

definition trailingRun :: "number \<Rightarrow> ChartData list \<Rightarrow> nat" where
  "trailingRun threshold series =
     length (takeWhile (\<lambda>point. jlt (temperature point) threshold) (rev series))"

text \<open>
  Some value among the last 120 samples, or among all of them where the series
  is shorter, exceeds 10.
\<close>

definition recentlyWarm :: "ChartData list \<Rightarrow> bool" where
  "recentlyWarm series =
     list_ex (\<lambda>point. jgt (temperature point) (Num 10)) (drop (length series - 120) series)"

section \<open>Sample inputs\<close>

text \<open>
  Two readings, 5.0 and 11.0 degrees, as a station delivers them and as the
  browser's cache holds them ten minutes after they were stored; a host whose
  labels are the two halves of the datetime text.
\<close>

definition sampleHost :: Host where
  "sampleHost = \<lparr>toLocaleTimeString = drop 11, toLocaleDateString = take 10\<rparr>"

definition sampleReadings :: "TemperatureDataPoint list" where
  "sampleReadings =
     [\<lparr>point_datetime = ''2025-09-01 12:00'', temperatur = ''5.0''\<rparr>,
      \<lparr>point_datetime = ''2025-09-01 13:00'', temperatur = ''11.0''\<rparr>]"

definition sampleStation :: Station where
  "sampleStation =
     \<lparr>title = ''Vasastan'', station_id = ''vasastan'', temp = ''11.0'',
      station_data = sampleReadings\<rparr>"

definition sampleEnv :: Env where
  "sampleEnv =
     \<lparr>forceRefresh = False, clock = 1756731600000, isProduction = True, setItemRaises = False,
      functionReply = None, proxyReply = None, exampleData = None\<rparr>"

definition sampleStorage :: "StoredItem option" where
  "sampleStorage =
     Some (Stored \<lparr>cached_data = sampleReadings, cached_stationInfo = sampleStation,
                   cached_timestamp = 1756731000000\<rparr>)"

definition sampleSeries :: "ChartData list" where
  "sampleSeries =
     [\<lparr>datetime = ''2025-09-01 12:00'', temperature = Num 5, time = ''12:00'',
       date = ''2025-09-01''\<rparr>,
      \<lparr>datetime = ''2025-09-01 13:00'', temperature = Num 11, time = ''13:00'',
       date = ''2025-09-01''\<rparr>]"

definition frostyPoint :: ChartData where
  "frostyPoint =
     \<lparr>datetime = ''2025-01-01 00:00'', temperature = Num (- 1), time = ''00:00'',
      date = ''2025-01-01''\<rparr>"

section \<open>The smoother: windows and lengths\<close>

lemma calculateMovingAverage_nth:
  "i < length S \<Longrightarrow>
   calculateMovingAverage S w ! i =
     (S ! i)\<lparr>temperature := round1 (windowAverage (trailingWindow S w i))\<rparr>"
  by (simp add: calculateMovingAverage_def nth_enumerate_eq)

lemma length_calculateMovingAverage: "length (calculateMovingAverage S w) = length S"
  by (simp add: calculateMovingAverage_def)

lemma round1_NaN: "round1 NaN = NaN"
  by (simp add: round1_def)

lemma windowAverage_Nil: "windowAverage [] = NaN"
  by (simp add: windowAverage_def of_index_def)

lemma windowAverage_single: "windowAverage [p] = temperature p"
  by (cases "temperature p") (simp_all add: windowAverage_def of_index_def)

lemma relativeIndex_nonneg:
  "0 \<le> r \<Longrightarrow> relativeIndex len (Num r) = min (nat \<lfloor>r\<rfloor>) len"
  by (simp add: js_trunc_def not_less min_def) linarith

lemma slice_Some:
  "slice xs a (Some b) =
     take (relativeIndex (length xs) b - relativeIndex (length xs) a)
       (drop (relativeIndex (length xs) a) xs)"
  by (simp add: slice_def Let_def)

lemma trailingWindow_unfold:
  "trailingWindow S w i =
     slice S (Math_max (Num 0) (jadd (jsub (of_index i) w) (Num 1))) (Some (Num (real i + 1)))"
  by (simp add: trailingWindow_def Let_def of_index_def)

lemma window_end: "i < length S \<Longrightarrow> relativeIndex (length S) (Num (real i + 1)) = Suc i"
proof -
  assume i: "i < length S"
  have "\<lfloor>real i + 1\<rfloor> = int i + 1" by linarith
  then show ?thesis using i by (simp add: relativeIndex_nonneg min_def nat_add_distrib del: relativeIndex.simps)
qed

lemma window_start_nonpositive:
  assumes "jle w (Num 0)" and "i < length S"
  shows "Suc i \<le> relativeIndex (length S) (Math_max (Num 0) (jadd (jsub (of_index i) w) (Num 1)))"
proof (cases w)
  case (Num r)
  then have r: "r \<le> 0" using assms(1) by (simp add: jle_def)
  have pos: "0 < real i - r + 1" using r by linarith
  have "int i + 1 \<le> \<lfloor>real i - r + 1\<rfloor>" using r by linarith
  then have "Suc i \<le> min (nat \<lfloor>real i - r + 1\<rfloor>) (length S)"
    using assms(2) by linarith
  moreover have "Math_max (Num 0) (jadd (jsub (of_index i) w) (Num 1)) = Num (real i - r + 1)"
    using Num pos by (simp add: of_index_def jsub_def Math_max_def)
  ultimately show ?thesis using pos by (simp add: relativeIndex_nonneg del: relativeIndex.simps)
next
  case PosInf
  then show ?thesis using assms(1) by (simp add: jle_def)
next
  case NegInf
  then show ?thesis using assms(2)
    by (simp add: of_index_def jsub_def Math_max_def)
next
  case NaN
  then show ?thesis using assms(1) by (simp add: jle_def)
qed

lemma trailingWindow_empty:
  assumes "jle w (Num 0)" and "i < length S"
  shows "trailingWindow S w i = []"
  using window_start_nonpositive [OF assms] window_end [OF assms(2)]
  by (simp add: trailingWindow_unfold slice_Some)

text \<open>
  For a window size that is a positive whole number the window at index \<open>i\<close>
  is the elements from \<open>max 0 (i - w + 1)\<close> up to \<open>i\<close>.
\<close>

lemma trailingWindow_nat:
  assumes "0 < w" and "i < length S"
  shows "trailingWindow S (of_index w) i = take (min (Suc i) w) (drop (Suc i - w) S)"
proof -
  have start: "relativeIndex (length S)
      (Math_max (Num 0) (jadd (jsub (of_index i) (of_index w)) (Num 1))) = Suc i - w"
  proof (cases "w \<le> i")
    case True
    then have fl: "nat \<lfloor>real i - real w + 1\<rfloor> = Suc i - w" by linarith
    have pos: "0 \<le> real i - real w + 1" using True by linarith
    have mx: "Math_max (Num 0) (jadd (jsub (of_index i) (of_index w)) (Num 1)) =
        Num (real i - real w + 1)"
      using True by (simp add: of_index_def jsub_def Math_max_def)
    have "min (Suc i - w) (length S) = Suc i - w" using assms(2) by linarith
    then show ?thesis
      unfolding mx relativeIndex_nonneg [OF pos] fl by simp
  next
    case False
    then have "\<not> 0 < real i - real w + 1" by linarith
    then show ?thesis using False
      by (simp add: of_index_def jsub_def Math_max_def relativeIndex_nonneg
            del: relativeIndex.simps)
  qed
  have "Suc i - (Suc i - w) = min (Suc i) w" using assms(1) by linarith
  then show ?thesis
    using window_end [OF assms(2)] start by (simp add: trailingWindow_unfold slice_Some)
qed

section \<open>The classifier: the loops and the decision\<close>

lemma countBelow_takeWhile:
  "- 1 \<le> i \<Longrightarrow> i < int (length xs) \<Longrightarrow>
   countBelow thr xs i c =
     c + length (takeWhile (\<lambda>point. jlt (temperature point) thr) (rev (take (nat (i + 1)) xs)))"
proof (induction thr xs i c rule: countBelow.induct)
  case (1 thr xs i c)
  show ?case
  proof (cases "0 \<le> i")
    case False
    then have "i = - 1" using "1.prems" by simp
    then show ?thesis by (subst countBelow.simps) simp
  next
    case True
    then have n: "nat (i + 1) = Suc (nat i)" and lt: "nat i < length xs"
      using "1.prems" by auto
    have tk: "rev (take (nat (i + 1)) xs) = xs ! nat i # rev (take (nat i) xs)"
      using lt by (simp add: n take_Suc_conv_app_nth)
    show ?thesis
    proof (cases "jlt (temperature (xs ! nat i)) thr")
      case below: True
      have "countBelow thr xs i c = countBelow thr xs (i - 1) (c + 1)"
        using True below by (subst countBelow.simps) simp
      also have "\<dots> = (c + 1) + length (takeWhile (\<lambda>point. jlt (temperature point) thr)
                                   (rev (take (nat (i - 1 + 1)) xs)))"
        using "1.IH" [OF True below] True "1.prems" by simp
      finally show ?thesis using below tk by simp
    next
      case notbelow: False
      have "countBelow thr xs i c = c"
        using True notbelow by (subst countBelow.simps) simp
      then show ?thesis using notbelow tk by simp
    qed
  qed
qed

lemma countBelow_trailingRun:
  "countBelow thr xs (int (length xs) - 1) 0 = trailingRun thr xs"
  using countBelow_takeWhile [of "int (length xs) - 1" xs thr 0]
  by (simp add: trailingRun_def)

lemma slice_last: "slice xs (jneg (of_index hoursIn5Days)) None = drop (length xs - 120) xs"
proof -
  have "nat (max (int (length xs) - 120) 0) = length xs - 120" by linarith
  then show ?thesis
    by (simp add: slice_def of_index_def hoursIn5Days_def js_trunc_def Let_def)
qed

lemma detectSeason_decision:
  "detectSeason S =
     (if 120 \<le> trailingRun (Num 0) S then
        \<lparr>season = ''winter'', message = ''Seems like it'' @ CHR 0x27 # ''s winter!''\<rparr>
      else if 120 \<le> trailingRun (Num 10) S then
        \<lparr>season = ''autumn'', message = ''Seems like it'' @ CHR 0x27 # ''s autumn!''\<rparr>
      else if recentlyWarm S then
        \<lparr>season = ''summer'', message = ''Seems like it'' @ CHR 0x27 # ''s summer!''\<rparr>
      else \<lparr>season = ''unknown'', message = ''''\<rparr>)"
  unfolding detectSeason_def Let_def countBelow_trailingRun slice_last recentlyWarm_def
  by (simp add: hoursIn5Days_def)

lemma trailingRun_suffix:
  assumes "\<forall>point \<in> set (drop (length S - n) S). jlt (temperature point) thr" and "n \<le> length S"
  shows "n \<le> trailingRun thr S"
proof -
  have "rev S = rev (drop (length S - n) S) @ rev (take (length S - n) S)"
    by (metis append_take_drop_id rev_append)
  then have "trailingRun thr S =
      length (takeWhile (\<lambda>point. jlt (temperature point) thr)
                (rev (drop (length S - n) S) @ rev (take (length S - n) S)))"
    by (simp add: trailingRun_def)
  also have "\<dots> = length (rev (drop (length S - n) S)) +
      length (takeWhile (\<lambda>point. jlt (temperature point) thr) (rev (take (length S - n) S)))"
    using assms(1) by (subst takeWhile_append2) simp_all
  finally show ?thesis using assms(2) by simp
qed

section \<open>The normalizer and the cached path of the pipeline\<close>

lemma parseFloat_5: "parseFloat ''5.0'' = Num 5"
  by (simp add: parseFloat_def strUnsignedDecimalLiteral_def isStrWhiteSpaceChar_def isDecimalDigit_def scaleBy_def exponentPart_def decimalValue_def)
lemma parseFloat_11: "parseFloat ''11.0'' = Num 11"
  by (simp add: parseFloat_def strUnsignedDecimalLiteral_def isStrWhiteSpaceChar_def isDecimalDigit_def scaleBy_def exponentPart_def decimalValue_def)
lemma parseFloat_abc: "parseFloat ''abc'' = NaN"
  by (simp add: parseFloat_def strUnsignedDecimalLiteral_def isStrWhiteSpaceChar_def isDecimalDigit_def scaleBy_def exponentPart_def decimalValue_def)

lemma fetchTemperatureData_cached:
  assumes "\<not> forceRefresh env" and "storage = Some (Stored c)"
      and "cached_timestamp c \<noteq> 0" and "isCacheValid (clock env) (cached_timestamp c)"
  shows "seasonInfo (fst (fetchTemperatureData host env (s, storage))) =
           detectSeason (convertApiDataToChartData host (cached_data c))
       \<and> movingAverageData (fst (fetchTemperatureData host env (s, storage))) =
           calculateMovingAverage (convertApiDataToChartData host (cached_data c)) (Num 24)
       \<and> data (fst (fetchTemperatureData host env (s, storage))) =
           convertApiDataToChartData host (cached_data c)"
  using assms by (simp add: fetchTemperatureData_def loadFromCache_def Let_def)

lemma sample_chart:
  "convertApiDataToChartData sampleHost sampleReadings = sampleSeries"
  by (simp add: convertApiDataToChartData_def sampleHost_def sampleReadings_def sampleSeries_def
        parseFloat_5 parseFloat_11)

lemma centered_looks_ahead:
  "temperature (calculateMovingAverage_centered sampleSeries (Num 6) ! 0) = Num 8
   \<and> temperature (calculateMovingAverage sampleSeries (Num 6) ! 0) = Num 5"
  by (simp add: calculateMovingAverage_centered_def calculateMovingAverage_def round1_def
        windowAverage_def centeredWindow_def trailingWindow_def slice_def Math_max_def
        Math_min_def jsub_def of_index_def js_trunc_def sampleSeries_def)

lemma sample_smoothed:
  "calculateMovingAverage sampleSeries (Num 24) =
     [(sampleSeries ! 0)\<lparr>temperature := Num 5\<rparr>, (sampleSeries ! 1)\<lparr>temperature := Num 8\<rparr>]"
  by (simp add: calculateMovingAverage_def round1_def windowAverage_def trailingWindow_def
        slice_def Math_max_def jsub_def of_index_def js_trunc_def sampleSeries_def)

section \<open>The claims\<close>

text \<open>
  Claim C1: a series whose last 120 elements all have the value -1.0 is
  classified as winter, although its run below 10 reaches 120 as well; and for
  every series the verdict is the first match of winter, autumn, summer,
  unknown, in this order, the two runs being counted from the end of the series.
\<close>

theorem detectSeason_winter_priority:
  "(120 \<le> length S \<and> (\<forall>point \<in> set (drop (length S - 120) S). temperature point = Num (- 1))
      \<longrightarrow> detectSeason S = \<lparr>season = ''winter'', message = ''Seems like it'' @ CHR 0x27 # ''s winter!''\<rparr> \<and> 120 \<le> trailingRun (Num 10) S)
   \<and> detectSeason T =
       (if 120 \<le> trailingRun (Num 0) T then \<lparr>season = ''winter'', message = ''Seems like it'' @ CHR 0x27 # ''s winter!''\<rparr>
        else if 120 \<le> trailingRun (Num 10) T then \<lparr>season = ''autumn'', message = ''Seems like it'' @ CHR 0x27 # ''s autumn!''\<rparr>
        else if recentlyWarm T then \<lparr>season = ''summer'', message = ''Seems like it'' @ CHR 0x27 # ''s summer!''\<rparr>
        else \<lparr>season = ''unknown'', message = ''''\<rparr>)"
proof -
  have "detectSeason S = \<lparr>season = ''winter'', message = ''Seems like it'' @ CHR 0x27 # ''s winter!''\<rparr> \<and> 120 \<le> trailingRun (Num 10) S"
    if len: "120 \<le> length S"
    and cold: "\<forall>point \<in> set (drop (length S - 120) S). temperature point = Num (- 1)"
  proof -
    have "120 \<le> trailingRun (Num 0) S"
      using len cold by (intro trailingRun_suffix) simp_all
    moreover have "120 \<le> trailingRun (Num 10) S"
      using len cold by (intro trailingRun_suffix) simp_all
    ultimately show ?thesis by (simp add: detectSeason_decision)
  qed
  then show ?thesis by (simp add: detectSeason_decision)
qed

text \<open>The theorem at 120 readings of -1.0 degrees.\<close>

theorem detectSeason_winter_priority_witness:
  "120 \<le> length (replicate 120 frostyPoint)
   \<and> temperature frostyPoint = Num (- 1)
   \<and> detectSeason (replicate 120 frostyPoint) = \<lparr>season = ''winter'', message = ''Seems like it'' @ CHR 0x27 # ''s winter!''\<rparr>
   \<and> 120 \<le> trailingRun (Num 10) (replicate 120 frostyPoint)"
  using detectSeason_winter_priority [of "replicate 120 frostyPoint" "[]"]
  by (simp add: frostyPoint_def)

text \<open>
  Claim C2, at an input where the code departs from it: the browser's cache
  holds the two sample readings, stored ten minutes ago, and no refresh is
  forced. The verdict the pipeline sets is the one of the raw series, summer;
  the smoothed series it sets beside it is classified as unknown.
\<close>

theorem fetchTemperatureData_cached_classifies_raw:
  "seasonInfo (fst (fetchTemperatureData sampleHost sampleEnv (initialState, sampleStorage))) =
     \<lparr>season = ''summer'', message = ''Seems like it'' @ CHR 0x27 # ''s summer!''\<rparr>
   \<and> seasonInfo (fst (fetchTemperatureData sampleHost sampleEnv (initialState, sampleStorage))) =
     detectSeason (data (fst (fetchTemperatureData sampleHost sampleEnv (initialState, sampleStorage))))
   \<and> movingAverageData (fst (fetchTemperatureData sampleHost sampleEnv (initialState, sampleStorage))) =
     calculateMovingAverage
       (data (fst (fetchTemperatureData sampleHost sampleEnv (initialState, sampleStorage)))) (Num 24)
   \<and> detectSeason (movingAverageData
         (fst (fetchTemperatureData sampleHost sampleEnv (initialState, sampleStorage)))) =
     \<lparr>season = ''unknown'', message = ''''\<rparr>"
proof -
  let ?c = "\<lparr>cached_data = sampleReadings, cached_stationInfo = sampleStation,
             cached_timestamp = 1756731000000\<rparr>"
  have v: "\<not> forceRefresh sampleEnv" "sampleStorage = Some (Stored ?c)"
    "cached_timestamp ?c \<noteq> 0" "isCacheValid (clock sampleEnv) (cached_timestamp ?c)"
    by (simp_all add: sampleEnv_def sampleStorage_def isCacheValid_def CACHE_DURATION_MS_def)
  have raw: "detectSeason sampleSeries = \<lparr>season = ''summer'', message = ''Seems like it'' @ CHR 0x27 # ''s summer!''\<rparr>"
    by (simp add: sampleSeries_def detectSeason_def slice_def of_index_def hoursIn5Days_def
          js_trunc_def jgt_def)
  have smooth: "detectSeason (calculateMovingAverage sampleSeries (Num 24)) = \<lparr>season = ''unknown'', message = ''''\<rparr>"
    unfolding sample_smoothed
    by (simp add: sampleSeries_def detectSeason_def slice_def of_index_def hoursIn5Days_def
          js_trunc_def jgt_def)
  show ?thesis
    using fetchTemperatureData_cached [OF v, of sampleHost initialState] raw smooth
    by (simp add: sample_chart)
qed

text \<open>
  Claim C3, as the code has it: the normalizer keeps every pair, in order. The
  output is as long as the input, and the temperature at each index is what
  \<open>parseFloat\<close> makes of the text at that index, NaN included.
\<close>

theorem convertApiDataToChartData_keeps_every_pair:
  "length (convertApiDataToChartData host apiData) = length apiData
   \<and> (\<forall>i < length apiData.
         datetime (convertApiDataToChartData host apiData ! i) = point_datetime (apiData ! i)
       \<and> temperature (convertApiDataToChartData host apiData ! i) =
           parseFloat (temperatur (apiData ! i)))"
  by (simp add: convertApiDataToChartData_def)

text \<open>The theorem at the two sample readings.\<close>

theorem convertApiDataToChartData_keeps_every_pair_witness:
  "length (convertApiDataToChartData sampleHost sampleReadings) = 2
   \<and> temperature (convertApiDataToChartData sampleHost sampleReadings ! 1) = Num 11"
  using convertApiDataToChartData_keeps_every_pair [of sampleHost sampleReadings]
  by (simp add: sampleReadings_def parseFloat_11)

text \<open>
  Claim C3 as it is stated fails at one pair with the temperature text
  \<open>abc\<close>: the output has one element, and its temperature is NaN.
\<close>

theorem convertApiDataToChartData_malformed_counterexample:
  "length (convertApiDataToChartData sampleHost
             [\<lparr>point_datetime = ''2025-09-01 12:00'', temperatur = ''abc''\<rparr>]) = 1
   \<and> temperature (convertApiDataToChartData sampleHost
             [\<lparr>point_datetime = ''2025-09-01 12:00'', temperatur = ''abc''\<rparr>] ! 0) = NaN"
  by (simp add: convertApiDataToChartData_def parseFloat_abc)

text \<open>
  Claim C4: for every series and every window size above 0 the smoothed series
  has the length of the series.
\<close>

theorem calculateMovingAverage_length:
  "jgt w (Num 0) \<Longrightarrow> length (calculateMovingAverage S w) = length S"
  by (simp add: calculateMovingAverage_def)

text \<open>The theorem at the sample series and the window 24.\<close>

theorem calculateMovingAverage_length_witness:
  "jgt (Num 24) (Num 0) \<and> length (calculateMovingAverage sampleSeries (Num 24)) = 2"
  using calculateMovingAverage_length [of "Num 24" sampleSeries]
  by (simp add: jgt_def sampleSeries_def)

text \<open>
  Claim C5: the 55 minutes are an exclusive bound. In the browser and in the
  caching function alike an entry created at \<open>createdAt\<close> is not valid when
  exactly \<open>CACHE_DURATION_MS\<close> have passed, and it is valid one millisecond
  earlier; the caching function takes an entry to be there when its data are
  set and its timestamp is not 0.
\<close>

theorem isCacheValid_boundary_exclusive:
  "CACHE_DURATION_MS = 55 * 60 * 1000
   \<and> \<not> isCacheValid (createdAt + CACHE_DURATION_MS) createdAt
   \<and> isCacheValid (createdAt + CACHE_DURATION_MS - 1) createdAt
   \<and> \<not> function_isCacheValid (createdAt + CACHE_DURATION_MS)
         \<lparr>cache_data = payload, cache_timestamp = Some createdAt, cache_stationInfo = info\<rparr>
   \<and> (createdAt \<noteq> 0 \<longrightarrow>
        function_isCacheValid (createdAt + CACHE_DURATION_MS - 1)
          \<lparr>cache_data = Some apiData, cache_timestamp = Some createdAt,
           cache_stationInfo = info\<rparr>)"
  by (simp add: isCacheValid_def function_isCacheValid_def CACHE_DURATION_MS_def)

text \<open>The theorem at an entry created on 1 September 2025.\<close>

theorem isCacheValid_boundary_exclusive_witness:
  "(1756731000000 :: int) \<noteq> 0
   \<and> \<not> isCacheValid (1756731000000 + 3300000) 1756731000000
   \<and> isCacheValid (1756731000000 + 3300000 - 1) 1756731000000
   \<and> \<not> function_isCacheValid (1756731000000 + 3300000)
         \<lparr>cache_data = Some \<lparr>full_exec_time = Num 0, api_title = ''Temperatur.nu'',
                               client = ''apan'', stations = Some [sampleStation]\<rparr>,
          cache_timestamp = Some 1756731000000, cache_stationInfo = Some sampleStation\<rparr>
   \<and> function_isCacheValid (1756731000000 + 3300000 - 1)
         \<lparr>cache_data = Some \<lparr>full_exec_time = Num 0, api_title = ''Temperatur.nu'',
                               client = ''apan'', stations = Some [sampleStation]\<rparr>,
          cache_timestamp = Some 1756731000000, cache_stationInfo = Some sampleStation\<rparr>"
  using isCacheValid_boundary_exclusive [of 1756731000000
      "Some \<lparr>full_exec_time = Num 0, api_title = ''Temperatur.nu'', client = ''apan'',
             stations = Some [sampleStation]\<rparr>" "Some sampleStation"
      "\<lparr>full_exec_time = Num 0, api_title = ''Temperatur.nu'', client = ''apan'',
        stations = Some [sampleStation]\<rparr>"]
  by (simp add: CACHE_DURATION_MS_def)

text \<open>
  Claim C6, as the code has it: for a window size of 0 or below the smoother
  does not fail. Every window is empty, its average is \<open>0 / 0\<close>, and the result
  is the series with every temperature replaced by NaN.
\<close>

theorem calculateMovingAverage_nonpositive_window:
  assumes "jle w (Num 0)"
  shows "calculateMovingAverage S w = map (\<lambda>point. point\<lparr>temperature := NaN\<rparr>) S"
proof (rule nth_equalityI)
  show "length (calculateMovingAverage S w) =
        length (map (\<lambda>point. point\<lparr>temperature := NaN\<rparr>) S)"
    by (simp add: length_calculateMovingAverage)
next
  fix i assume "i < length (calculateMovingAverage S w)"
  then have i: "i < length S" by (simp add: length_calculateMovingAverage)
  then show "calculateMovingAverage S w ! i = map (\<lambda>point. point\<lparr>temperature := NaN\<rparr>) S ! i"
    by (simp add: calculateMovingAverage_nth trailingWindow_empty [OF assms i]
          windowAverage_Nil round1_NaN)
qed

text \<open>The theorem at the sample series and the window -3.\<close>

theorem calculateMovingAverage_nonpositive_window_witness:
  "jle (Num (- 3)) (Num 0)
   \<and> calculateMovingAverage sampleSeries (Num (- 3)) =
       [(sampleSeries ! 0)\<lparr>temperature := NaN\<rparr>, (sampleSeries ! 1)\<lparr>temperature := NaN\<rparr>]"
  using calculateMovingAverage_nonpositive_window [of "Num (- 3)" sampleSeries]
  by (simp add: jle_def sampleSeries_def)

text \<open>
  Claim C6 as it is stated fails at the window 0: the call returns a series,
  of one point with the temperature NaN.
\<close>

theorem calculateMovingAverage_zero_window_counterexample:
  "calculateMovingAverage
     [\<lparr>datetime = ''2025-09-01 12:00'', temperature = Num (1 / 4), time = ''12:00'',
        date = ''2025-09-01''\<rparr>] (Num 0) =
     [\<lparr>datetime = ''2025-09-01 12:00'', temperature = NaN, time = ''12:00'',
       date = ''2025-09-01''\<rparr>]"
  by (simp add: calculateMovingAverage_def round1_def windowAverage_def trailingWindow_def
        slice_def Math_max_def jsub_def of_index_def js_trunc_def)

text \<open>
  Claim C7, as the code has it: for every series that is not empty and every
  window size that is a whole number above 0 the smoothed value at index 0 is
  the temperature at index 0 rounded to one decimal,
  \<open>Math.round(t * 10) / 10\<close>. The window size is a whole number because the
  start of the window, \<open>index - windowSize + 1\<close>, is exact on whole numbers
  and is not on every fraction.
\<close>

theorem calculateMovingAverage_first:
  assumes "0 < n" and "S \<noteq> []"
  shows "temperature (calculateMovingAverage S (of_index n) ! 0) =
         round1 (temperature (S ! 0))"
proof -
  have len: "0 < length S" using assms(2) by simp
  have "trailingWindow S (of_index n) 0 = take (min (Suc 0) n) (drop (Suc 0 - n) S)"
    by (rule trailingWindow_nat [OF assms(1) len])
  also have "\<dots> = take (Suc 0) S" using assms(1) by (simp add: min_def)
  also have "\<dots> = [S ! 0]" using assms(2) by (cases S) simp_all
  finally have "trailingWindow S (of_index n) 0 = [S ! 0]" .
  then show ?thesis
    using len by (simp add: calculateMovingAverage_nth windowAverage_single)
qed

text \<open>The theorem at the sample series and the window 24.\<close>

theorem calculateMovingAverage_first_witness:
  "(0 :: nat) < 24 \<and> sampleSeries \<noteq> []
   \<and> temperature (calculateMovingAverage sampleSeries (of_index 24) ! 0) = Num 5"
  using calculateMovingAverage_first [of 24 sampleSeries]
  by (simp add: sampleSeries_def round1_def)

text \<open>
  Claim C7 as it is stated fails at one point of 0.25 degrees and the window
  24: the smoothed value at index 0 is 0.3.
\<close>

theorem calculateMovingAverage_first_counterexample:
  "temperature (calculateMovingAverage
     [\<lparr>datetime = ''2025-09-01 12:00'', temperature = Num (1 / 4), time = ''12:00'',
        date = ''2025-09-01''\<rparr>] (Num 24) ! 0) = Num (3 / 10)
   \<and> temperature (calculateMovingAverage
     [\<lparr>datetime = ''2025-09-01 12:00'', temperature = Num (1 / 4), time = ''12:00'',
        date = ''2025-09-01''\<rparr>] (Num 24) ! 0) \<noteq>
     temperature ([\<lparr>datetime = ''2025-09-01 12:00'', temperature = Num (1 / 4), time = ''12:00'',
        date = ''2025-09-01''\<rparr>] ! 0)"
  by (simp add: calculateMovingAverage_def round1_def windowAverage_def trailingWindow_def
        slice_def Math_max_def jsub_def of_index_def js_trunc_def)

text \<open>
  Claim C8, as the code has it: on a GET request with no valid cache entry,
  when the upstream request is rejected or its reply has no station, the
  handler answers with status 500 and the body
  \<open>{ success: false, error, timestamp }\<close>, and leaves the cache as it was.
\<close>

theorem handler_failure_status:
  assumes "\<not> function_isCacheValid now cache"
      and "upstream = Rejected msg \<or>
           (upstream = Resolved apiData
            \<and> (stations apiData = None \<or> stations apiData = Some [])
            \<and> msg = ''No stations data received from API'')"
  shows "handler ''GET'' now later upstream cache =
           (\<lparr>statusCode = 500, headers = corsHeaders,
             body = Some \<lparr>success = Some False, cached = None, timestamp = Some later,
                           body_stations = None, body_stationInfo = None,
                           body_error = Some msg\<rparr>\<rparr>, cache)"
  using assms by (auto simp add: handler_def failure_def noKeys_def)

text \<open>The theorem at an empty cache and a reply without stations.\<close>

theorem handler_failure_status_witness:
  "\<not> function_isCacheValid 1756731600000
        \<lparr>cache_data = None, cache_timestamp = None, cache_stationInfo = None\<rparr>
   \<and> statusCode (fst (handler ''GET'' 1756731600000 1756731610000
        (Resolved \<lparr>full_exec_time = Num 0, api_title = ''Temperatur.nu'', client = ''apan'',
                   stations = Some []\<rparr>)
        \<lparr>cache_data = None, cache_timestamp = None, cache_stationInfo = None\<rparr>)) = 500"
  using handler_failure_status [of 1756731600000
      "\<lparr>cache_data = None, cache_timestamp = None, cache_stationInfo = None\<rparr>"
      "Resolved \<lparr>full_exec_time = Num 0, api_title = ''Temperatur.nu'', client = ''apan'',
                 stations = Some []\<rparr>"
      "''No stations data received from API''"
      "\<lparr>full_exec_time = Num 0, api_title = ''Temperatur.nu'', client = ''apan'',
        stations = Some []\<rparr>" 1756731610000]
  by (simp add: function_isCacheValid_def)

text \<open>
  Claim C8 as it is stated fails at a GET request with an empty cache and an
  upstream request that times out: the status is 500.
\<close>

theorem handler_failure_counterexample:
  "statusCode (fst (handler ''GET'' 1756731600000 1756731610000 (Rejected ''Request timeout'')
      \<lparr>cache_data = None, cache_timestamp = None, cache_stationInfo = None\<rparr>)) = 500"
  by (simp add: handler_def failure_def function_isCacheValid_def)

text \<open>
  Claim C9: for every series, every window size above 0 and every index of the
  series, the smoothed element keeps the datetime, the time and the date of the
  element at that index; it is that element with the temperature replaced by
  the rounded average of the trailing window.
\<close>

theorem calculateMovingAverage_frame:
  assumes "jgt w (Num 0)" and "i < length S"
  shows "i < length (calculateMovingAverage S w)
       \<and> datetime (calculateMovingAverage S w ! i) = datetime (S ! i)
       \<and> time (calculateMovingAverage S w ! i) = time (S ! i)
       \<and> date (calculateMovingAverage S w ! i) = date (S ! i)
       \<and> calculateMovingAverage S w ! i =
           (S ! i)\<lparr>temperature := round1 (windowAverage (trailingWindow S w i))\<rparr>"
  using assms(2) by (simp add: calculateMovingAverage_nth length_calculateMovingAverage)

text \<open>The theorem at the second point of the sample series and the window 24.\<close>

theorem calculateMovingAverage_frame_witness:
  "jgt (Num 24) (Num 0) \<and> 1 < length sampleSeries
   \<and> datetime (calculateMovingAverage sampleSeries (Num 24) ! 1) = ''2025-09-01 13:00''
   \<and> time (calculateMovingAverage sampleSeries (Num 24) ! 1) = ''13:00''
   \<and> date (calculateMovingAverage sampleSeries (Num 24) ! 1) = ''2025-09-01''"
  using calculateMovingAverage_frame [of "Num 24" 1 sampleSeries]
  by (simp add: jgt_def sampleSeries_def)

text \<open>
  Claim C10: for every series, the empty one included, \<open>detectSeason\<close> returns a
  verdict whose season is one of winter, autumn, summer and unknown, and whose
  message is empty exactly when the season is unknown.
\<close>

theorem detectSeason_verdict:
  "season (detectSeason S) \<in> {''winter'', ''autumn'', ''summer'', ''unknown''}
   \<and> (message (detectSeason S) = '''' \<longleftrightarrow> season (detectSeason S) = ''unknown'')"
  by (simp add: detectSeason_decision)

end
